theory Spec2Isabelle
  imports Complex_Main
begin

section \<open>Python values and the runtime primitives the tools rely on\<close>

text \<open>
  The two tools of \<^verbatim>\<open>src/chefskiss/agent.py\<close>, \<^verbatim>\<open>find_recipies\<close> and
  \<^verbatim>\<open>calculate_recipe_macros\<close>, work on what \<^verbatim>\<open>json.loads\<close> returns: \<^verbatim>\<open>None\<close>,
  booleans, integers, floats, strings, lists and dicts. The values are modelled as they
  are, untyped, so that every \<^verbatim>\<open>KeyError\<close>, \<^verbatim>\<open>AttributeError\<close> and \<^verbatim>\<open>TypeError\<close> the
  source can raise is a branch of the model. A dict is the list of its items in insertion
  order (\<^verbatim>\<open>json.loads\<close> keeps one item per key).

  The type \<open>'f\<close> stands for Python's \<^verbatim>\<open>float\<close>.
\<close>

datatype pyerror = KeyError | AttributeError | TypeError | OverflowError

datatype 'f json =
    JNull
  | JBool bool
  | JInt int
  | JFloat 'f
  | JStr string
  | JList "'f json list"
  | JObj "(string \<times> 'f json) list"

text \<open>
  Two library primitives are parameters of the model: \<^verbatim>\<open>str.lower\<close> and the binary64
  arithmetic of \<^verbatim>\<open>float\<close>. Every general theorem below holds for all of their
  interpretations, hence for CPython's.
  \<^item> \<open>str_lower\<close>: \<^verbatim>\<open>s.lower()\<close>;
  \<^item> \<open>float_of_int\<close>: the implicit conversion of an \<^verbatim>\<open>int\<close> operand of \<^verbatim>\<open>/\<close> or \<^verbatim>\<open>*\<close>
    whose other operand is a float; \<open>None\<close> is \<^verbatim>\<open>OverflowError\<close>;
  \<^item> \<open>float_zero\<close>, \<open>float_hundred\<close>: the literals \<^verbatim>\<open>0.0\<close> and \<^verbatim>\<open>100.0\<close>;
  \<^item> \<open>float_is_zero\<close>: \<^verbatim>\<open>not x\<close> on a float;
  \<^item> \<open>float_add\<close>, \<open>float_mul\<close>, \<open>float_div\<close>: \<^verbatim>\<open>+\<close>, \<^verbatim>\<open>*\<close>, \<^verbatim>\<open>/\<close> on floats;
  \<^item> \<open>float_round1\<close>: \<^verbatim>\<open>round(x, 1)\<close>.
\<close>

record 'f runtime =
  str_lower :: "string \<Rightarrow> string"
  float_of_int :: "int \<Rightarrow> 'f option"
  float_zero :: 'f
  float_hundred :: 'f
  float_is_zero :: "'f \<Rightarrow> bool"
  float_add :: "'f \<Rightarrow> 'f \<Rightarrow> 'f"
  float_mul :: "'f \<Rightarrow> 'f \<Rightarrow> 'f"
  float_div :: "'f \<Rightarrow> 'f \<Rightarrow> 'f"
  float_round1 :: "'f \<Rightarrow> 'f"

text \<open>Sequencing: an exception raised by the first computation skips the rest.\<close>

fun bindE :: "'e + 'a \<Rightarrow> ('a \<Rightarrow> 'e + 'b) \<Rightarrow> 'e + 'b" where
  "bindE (Inl e) f = Inl e"
| "bindE (Inr x) f = f x"

text \<open>A generator expression consumed in order: the first exception ends it.\<close>

fun map_err :: "('a \<Rightarrow> 'e + 'b) \<Rightarrow> 'a list \<Rightarrow> 'e + 'b list" where
  "map_err f [] = Inr []"
| "map_err f (x # xs) =
     bindE (f x) (\<lambda>y. bindE (map_err f xs) (\<lambda>ys. Inr (y # ys)))"

text \<open>\<^verbatim>\<open>v.lower()\<close>: only \<^verbatim>\<open>str\<close> has the method.\<close>

fun py_lower :: "'f runtime \<Rightarrow> 'f json \<Rightarrow> pyerror + string" where
  "py_lower rt (JStr s) = Inr (str_lower rt s)"
| "py_lower rt _ = Inl AttributeError"

text \<open>\<^verbatim>\<open>v[key]\<close> with a string key: \<^verbatim>\<open>KeyError\<close> on a dict without the key,
  \<^verbatim>\<open>TypeError\<close> on anything that is not a dict.\<close>

fun py_getitem :: "'f json \<Rightarrow> string \<Rightarrow> pyerror + 'f json" where
  "py_getitem (JObj kvs) key =
     (case map_of kvs key of None \<Rightarrow> Inl KeyError | Some v \<Rightarrow> Inr v)"
| "py_getitem _ key = Inl TypeError"

text \<open>\<^verbatim>\<open>v.get(key, default)\<close>: only \<^verbatim>\<open>dict\<close> has the method.\<close>

fun py_get :: "'f json \<Rightarrow> string \<Rightarrow> 'f json \<Rightarrow> pyerror + 'f json" where
  "py_get (JObj kvs) key dflt =
     (case map_of kvs key of None \<Rightarrow> Inr dflt | Some v \<Rightarrow> Inr v)"
| "py_get _ key dflt = Inl AttributeError"

text \<open>\<^verbatim>\<open>for x in v\<close>: a list yields its elements, a string its characters (strings
  again), a dict its keys; nothing else is iterable.\<close>

fun py_iter :: "'f json \<Rightarrow> pyerror + 'f json list" where
  "py_iter (JList xs) = Inr xs"
| "py_iter (JStr s) = Inr (map (\<lambda>c. JStr [c]) s)"
| "py_iter (JObj kvs) = Inr (map (\<lambda>kv. JStr (fst kv)) kvs)"
| "py_iter _ = Inl TypeError"

text \<open>\<^verbatim>\<open>not v\<close> is the negation of truthiness.\<close>

fun truthy :: "'f runtime \<Rightarrow> 'f json \<Rightarrow> bool" where
  "truthy rt JNull = False"
| "truthy rt (JBool b) = b"
| "truthy rt (JInt n) = (n \<noteq> 0)"
| "truthy rt (JFloat x) = (\<not> float_is_zero rt x)"
| "truthy rt (JStr s) = (s \<noteq> [])"
| "truthy rt (JList xs) = (xs \<noteq> [])"
| "truthy rt (JObj kvs) = (kvs \<noteq> [])"

text \<open>The operand of \<^verbatim>\<open>/ 100.0\<close> or \<^verbatim>\<open>* scale_factor\<close>: a float as it is, an
  \<^verbatim>\<open>int\<close> or \<^verbatim>\<open>bool\<close> converted, anything else a \<^verbatim>\<open>TypeError\<close>.\<close>

fun as_float :: "'f runtime \<Rightarrow> 'f json \<Rightarrow> pyerror + 'f" where
  "as_float rt (JFloat x) = Inr x"
| "as_float rt (JInt n) =
     (case float_of_int rt n of None \<Rightarrow> Inl OverflowError | Some x \<Rightarrow> Inr x)"
| "as_float rt (JBool b) =
     (case float_of_int rt (if b then 1 else 0) of
        None \<Rightarrow> Inl OverflowError | Some x \<Rightarrow> Inr x)"
| "as_float rt _ = Inl TypeError"

section \<open>\<^verbatim>\<open>find_recipies\<close>\<close>

text \<open>
  \<^verbatim>\<open>required_set = set(ingredient["name"].lower() for ingredient in recipe["ingredients"])\<close>
\<close>

definition required_set :: "'f runtime \<Rightarrow> 'f json \<Rightarrow> pyerror + string set" where
  "required_set rt recipe =
     bindE (py_getitem recipe ''ingredients'') (\<lambda>ings.
     bindE (py_iter ings) (\<lambda>xs.
     bindE (map_err (\<lambda>ingredient. bindE (py_getitem ingredient ''name'') (py_lower rt)) xs)
       (\<lambda>names. Inr (set names))))"

text \<open>
  The loop over \<^verbatim>\<open>RECIPES_DB\<close>; \<open>matching_recipes\<close> is the list built by
  \<^verbatim>\<open>append\<close>. \<^verbatim>\<open>recipe["name"]\<close> is read only for a recipe that matches.
\<close>

fun match_loop ::
  "'f runtime \<Rightarrow> string set \<Rightarrow> int \<Rightarrow> 'f json list \<Rightarrow> 'f json list \<Rightarrow> pyerror + 'f json list"
where
  "match_loop rt available_set max_missing [] matching_recipes = Inr matching_recipes"
| "match_loop rt available_set max_missing (recipe # rest) matching_recipes =
     bindE (required_set rt recipe) (\<lambda>required.
       let missing_ingredients = required - available_set in
       if int (card missing_ingredients) \<le> max_missing
       then bindE (py_getitem recipe ''name'') (\<lambda>name.
              match_loop rt available_set max_missing rest (matching_recipes @ [name]))
       else match_loop rt available_set max_missing rest matching_recipes)"

text \<open>
  \<^verbatim>\<open>find_recipies(available_ingredients, max_missing)\<close>, with \<^verbatim>\<open>RECIPES_DB\<close> (loaded
  from \<^verbatim>\<open>artefacts/recipes.json\<close>) as the last argument. The available set is built before
  the loop starts.
\<close>

definition find_recipies ::
  "'f runtime \<Rightarrow> 'f json list \<Rightarrow> int \<Rightarrow> 'f json list \<Rightarrow> pyerror + 'f json list"
where
  "find_recipies rt available_ingredients max_missing RECIPES_DB =
     bindE (map_err (py_lower rt) available_ingredients) (\<lambda>lowered.
       match_loop rt (set lowered) max_missing RECIPES_DB [])"

section \<open>\<^verbatim>\<open>calculate_recipe_macros\<close>\<close>

text \<open>The result dict \<^verbatim>\<open>{"protein": P, "carbs": C, "fat": F, "calories": C}\<close>; the
  fields are in the dict's insertion order, which is the order of \<^verbatim>\<open>for macro in
  total_macros\<close>.\<close>

record 'f macros =
  protein :: 'f
  carbs :: 'f
  fat :: 'f
  calories :: 'f

text \<open>
  \<^verbatim>\<open>next((r for r in RECIPES_DB if r.get("name", "").lower() == recipe.lower()), None)\<close>:
  the first entry whose name equals the argument after lowercasing both.
\<close>

fun find_target :: "'f runtime \<Rightarrow> 'f json list \<Rightarrow> 'f json \<Rightarrow> pyerror + 'f json option" where
  "find_target rt [] recipe = Inr None"
| "find_target rt (r # rest) recipe =
     bindE (py_get r ''name'' (JStr [])) (\<lambda>name.
     bindE (py_lower rt name) (\<lambda>lhs.
     bindE (py_lower rt recipe) (\<lambda>rhs.
       if lhs = rhs then Inr (Some r) else find_target rt rest recipe)))"

text \<open>\<^verbatim>\<open>total_macros[macro] += macros_per_100g.get(macro, 0) * scale_factor\<close>, returning
  the new value of \<^verbatim>\<open>total_macros[macro]\<close>.\<close>

definition add_macro :: "'f runtime \<Rightarrow> 'f json \<Rightarrow> 'f \<Rightarrow> string \<Rightarrow> 'f \<Rightarrow> pyerror + 'f" where
  "add_macro rt macros_per_100g scale_factor macro running =
     bindE (py_get macros_per_100g macro (JInt 0)) (\<lambda>v.
     bindE (as_float rt v) (\<lambda>x.
       Inr (float_add rt running (float_mul rt x scale_factor))))"

text \<open>
  The body of the loop over the ingredients. Both \<^verbatim>\<open>continue\<close> branches return the
  totals unchanged; the \<^verbatim>\<open>print\<close> calls of the source write diagnostics only and are left
  out. \<^verbatim>\<open>MACROS_DB\<close> (loaded from \<^verbatim>\<open>artefacts/macros.json\<close>) is a map from names to
  entries, and \<^verbatim>\<open>MACROS_DB.get(k)\<close> is \<^verbatim>\<open>None\<close> for a key it does not have.
\<close>

definition process_ingredient ::
  "'f runtime \<Rightarrow> (string \<rightharpoonup> 'f json) \<Rightarrow> 'f macros \<Rightarrow> 'f json \<Rightarrow> pyerror + 'f macros"
where
  "process_ingredient rt MACROS_DB total_macros ingredient_obj =
     bindE (py_get ingredient_obj ''name'' JNull) (\<lambda>ingredient_name.
     bindE (py_get ingredient_obj ''weight_grams'' JNull) (\<lambda>weight_grams.
       if \<not> truthy rt ingredient_name \<or> \<not> truthy rt weight_grams then Inr total_macros
       else
         bindE (py_lower rt ingredient_name) (\<lambda>ingredient_name_lower.
           let macros_per_100g =
                 (case MACROS_DB ingredient_name_lower of None \<Rightarrow> JNull | Some e \<Rightarrow> e) in
           if \<not> truthy rt macros_per_100g then Inr total_macros
           else
             bindE (as_float rt weight_grams) (\<lambda>w.
               let scale_factor = float_div rt w (float_hundred rt) in
               bindE (add_macro rt macros_per_100g scale_factor ''protein'' (protein total_macros)) (\<lambda>p.
               bindE (add_macro rt macros_per_100g scale_factor ''carbs'' (carbs total_macros)) (\<lambda>c.
               bindE (add_macro rt macros_per_100g scale_factor ''fat'' (fat total_macros)) (\<lambda>f.
               bindE (add_macro rt macros_per_100g scale_factor ''calories'' (calories total_macros)) (\<lambda>k.
                 Inr \<lparr>protein = p, carbs = c, fat = f, calories = k\<rparr>))))))))"

text \<open>\<^verbatim>\<open>for ingredient_obj in target_recipe_data["ingredients"]\<close>, threading the totals.\<close>

fun macro_loop ::
  "'f runtime \<Rightarrow> (string \<rightharpoonup> 'f json) \<Rightarrow> 'f json list \<Rightarrow> 'f macros \<Rightarrow> pyerror + 'f macros"
where
  "macro_loop rt MACROS_DB [] total_macros = Inr total_macros"
| "macro_loop rt MACROS_DB (ingredient_obj # rest) total_macros =
     bindE (process_ingredient rt MACROS_DB total_macros ingredient_obj)
       (macro_loop rt MACROS_DB rest)"

definition zero_macros :: "'f runtime \<Rightarrow> 'f macros" where
  "zero_macros rt =
     \<lparr>protein = float_zero rt, carbs = float_zero rt, fat = float_zero rt,
      calories = float_zero rt\<rparr>"

text \<open>\<^verbatim>\<open>{macro: round(value, 1) for macro, value in total_macros.items()}\<close>\<close>

definition round_macros :: "'f runtime \<Rightarrow> 'f macros \<Rightarrow> 'f macros" where
  "round_macros rt t =
     \<lparr>protein = float_round1 rt (protein t), carbs = float_round1 rt (carbs t),
      fat = float_round1 rt (fat t), calories = float_round1 rt (calories t)\<rparr>"

text \<open>
  \<^verbatim>\<open>calculate_recipe_macros(recipe)\<close>, with \<^verbatim>\<open>RECIPES_DB\<close> and \<^verbatim>\<open>MACROS_DB\<close> as
  arguments. \<open>Inr None\<close> is the \<^verbatim>\<open>return None\<close> of an unknown recipe, \<open>Inr (Some m)\<close> the
  dict of rounded totals, \<open>Inl e\<close> an exception that leaves the function.
\<close>

definition calculate_recipe_macros ::
  "'f runtime \<Rightarrow> 'f json \<Rightarrow> 'f json list \<Rightarrow> (string \<rightharpoonup> 'f json) \<Rightarrow> pyerror + 'f macros option"
where
  "calculate_recipe_macros rt recipe RECIPES_DB MACROS_DB =
     bindE (find_target rt RECIPES_DB recipe) (\<lambda>target_recipe_data.
       case target_recipe_data of
         None \<Rightarrow> Inr None
       | Some target \<Rightarrow>
           bindE (py_getitem target ''ingredients'') (\<lambda>ings.
           bindE (py_iter ings) (\<lambda>xs.
           bindE (macro_loop rt MACROS_DB xs (zero_macros rt)) (\<lambda>total_macros.
             Inr (Some (round_macros rt total_macros))))))"

section \<open>A runtime to compute with\<close>

text \<open>
  For concrete runs the primitives are instantiated: \<open>ascii_lower\<close> lowercases the
  letters A to Z, as \<^verbatim>\<open>str.lower\<close> does on ASCII text, and floats are exact rationals,
  rounded to one decimal with ties to even. Exact arithmetic agrees with binary64 on the
  runs below: the weights are 50, 100 and 150 grams and the nutrient values are integers,
  so every quotient, product and sum is a small multiple of \<open>1/2\<close>, which binary64
  represents exactly and \<^verbatim>\<open>round(x, 1)\<close> leaves unchanged.
\<close>

definition ascii_lower_char :: "char \<Rightarrow> char" where
  "ascii_lower_char c =
     (case map_of (zip ''ABCDEFGHIJKLMNOPQRSTUVWXYZ'' ''abcdefghijklmnopqrstuvwxyz'') c of
        None \<Rightarrow> c
      | Some l \<Rightarrow> l)"

definition ascii_lower :: "string \<Rightarrow> string" where
  "ascii_lower s = map ascii_lower_char s"

definition round_half_even :: "rat \<Rightarrow> int" where
  "round_half_even x =
     (let f = \<lfloor>x\<rfloor>; d = x - of_int f in
      if d < 1 / 2 then f else if 1 / 2 < d then f + 1 else if even f then f else f + 1)"

definition exact_runtime :: "rat runtime" where
  "exact_runtime =
     \<lparr>str_lower = ascii_lower,
      float_of_int = (\<lambda>n. Some (of_int n)),
      float_zero = 0,
      float_hundred = 100,
      float_is_zero = (\<lambda>x. x = 0),
      float_add = (+),
      float_mul = (*),
      float_div = (/),
      float_round1 = (\<lambda>x. of_int (round_half_even (x * 10)) / 10)\<rparr>"

section \<open>The catalogs as the specification describes them\<close>

text \<open>
  The specification's data model: a recipe record has a name and a sequence of
  ingredient entries, an entry a name and a weight in grams. The accessors below read
  these fields off a value; the predicates say when a value has the shape that
  \<^verbatim>\<open>find_recipies\<close> subscripts without a check.
\<close>

fun field :: "'f json \<Rightarrow> string \<Rightarrow> 'f json option" where
  "field (JObj kvs) key = map_of kvs key"
| "field _ key = None"

fun is_str :: "'f json \<Rightarrow> bool" where
  "is_str (JStr s) = True"
| "is_str _ = False"

definition recipe_name :: "'f json \<Rightarrow> 'f json" where
  "recipe_name r = (case field r ''name'' of Some n \<Rightarrow> n | None \<Rightarrow> JNull)"

definition ingredient_entries :: "'f json \<Rightarrow> 'f json list" where
  "ingredient_entries r = (case field r ''ingredients'' of Some (JList xs) \<Rightarrow> xs | _ \<Rightarrow> [])"

definition entry_name :: "'f json \<Rightarrow> string" where
  "entry_name i = (case field i ''name'' of Some (JStr s) \<Rightarrow> s | _ \<Rightarrow> [])"

definition required_names :: "'f json \<Rightarrow> string list" where
  "required_names r = map entry_name (ingredient_entries r)"

definition named_entry :: "'f json \<Rightarrow> bool" where
  "named_entry i = (case field i ''name'' of Some (JStr s) \<Rightarrow> True | _ \<Rightarrow> False)"

definition matchable_recipe :: "'f json \<Rightarrow> bool" where
  "matchable_recipe r =
     (case field r ''name'' of
        None \<Rightarrow> False
      | Some n \<Rightarrow>
          (case field r ''ingredients'' of
             Some (JList xs) \<Rightarrow> list_all named_entry xs
           | _ \<Rightarrow> False))"

text \<open>
  The matching rule in the specification's words: the set of a recipe's required names
  minus the set of available names, both lowercased, has at most \<open>max_missing\<close> elements.
\<close>

definition missing_names :: "'f runtime \<Rightarrow> string list \<Rightarrow> 'f json \<Rightarrow> string set" where
  "missing_names rt available r =
     str_lower rt ` set (required_names r) - str_lower rt ` set available"

definition spec_matches :: "'f runtime \<Rightarrow> string list \<Rightarrow> int \<Rightarrow> 'f json list \<Rightarrow> 'f json list" where
  "spec_matches rt available max_missing catalog =
     map recipe_name
       (filter (\<lambda>r. int (card (missing_names rt available r)) \<le> max_missing) catalog)"

text \<open>
  What \<^verbatim>\<open>calculate_recipe_macros\<close> reads with \<^verbatim>\<open>.get\<close>: a field of an ingredient
  entry (\<^verbatim>\<open>None\<close> when absent), the name a catalog record is looked up by (the empty
  string when absent), and the nutrient entry of an ingredient.
\<close>

fun is_obj :: "'f json \<Rightarrow> bool" where
  "is_obj (JObj kvs) = True"
| "is_obj _ = False"

definition entry_field :: "'f json \<Rightarrow> string \<Rightarrow> 'f json" where
  "entry_field i key = (case field i key of None \<Rightarrow> JNull | Some v \<Rightarrow> v)"

definition lookup_name :: "'f json \<Rightarrow> string" where
  "lookup_name r = (case field r ''name'' of Some (JStr s) \<Rightarrow> s | _ \<Rightarrow> [])"

definition lookup_entry :: "'f json \<Rightarrow> bool" where
  "lookup_entry r =
     (is_obj r \<and> (case field r ''name'' of None \<Rightarrow> True | Some v \<Rightarrow> is_str v))"

definition nutrient_entry :: "'f runtime \<Rightarrow> (string \<rightharpoonup> 'f json) \<Rightarrow> 'f json \<Rightarrow> 'f json option" where
  "nutrient_entry rt table i =
     (case entry_field i ''name'' of JStr s \<Rightarrow> table (str_lower rt s) | _ \<Rightarrow> None)"

text \<open>
  The specification's DataIncomplete condition on an ingredient entry: the name is
  missing or empty, or the weight is missing, zero or falsy, or the nutrient table has
  no entry for the lowercased name. (A falsy name of another type, such as \<^verbatim>\<open>0\<close>,
  counts as missing, as in the source's \<^verbatim>\<open>not ingredient_name\<close>.)
\<close>

definition data_incomplete :: "'f runtime \<Rightarrow> (string \<rightharpoonup> 'f json) \<Rightarrow> 'f json \<Rightarrow> bool" where
  "data_incomplete rt table i =
     (is_obj i \<and>
      (\<not> truthy rt (entry_field i ''name'') \<or>
       \<not> truthy rt (entry_field i ''weight_grams'') \<or>
       (is_str (entry_field i ''name'') \<and> nutrient_entry rt table i = None)))"

text \<open>
  Numbers as the arithmetic of the source reads them, and an entry with complete,
  well-typed data: a non-empty string name, a non-zero numeric weight, and a non-empty
  nutrient entry whose macro fields are numbers where present.
\<close>

definition numeric :: "'f runtime \<Rightarrow> 'f json \<Rightarrow> bool" where
  "numeric rt v = (case as_float rt v of Inl e \<Rightarrow> False | Inr x \<Rightarrow> True)"

definition number :: "'f runtime \<Rightarrow> 'f json \<Rightarrow> 'f" where
  "number rt v = (case as_float rt v of Inl e \<Rightarrow> float_zero rt | Inr x \<Rightarrow> x)"

definition macro_value :: "'f json \<Rightarrow> string \<Rightarrow> 'f json" where
  "macro_value e macro = (case field e macro of None \<Rightarrow> JInt 0 | Some v \<Rightarrow> v)"

definition usable :: "'f runtime \<Rightarrow> (string \<rightharpoonup> 'f json) \<Rightarrow> 'f json \<Rightarrow> bool" where
  "usable rt table i =
     (is_obj i \<and>
      is_str (entry_field i ''name'') \<and> truthy rt (entry_field i ''name'') \<and>
      truthy rt (entry_field i ''weight_grams'') \<and> numeric rt (entry_field i ''weight_grams'') \<and>
      (case nutrient_entry rt table i of
         None \<Rightarrow> False
       | Some e \<Rightarrow>
           is_obj e \<and> truthy rt e \<and>
           list_all (\<lambda>macro. numeric rt (macro_value e macro))
             [''protein'', ''carbs'', ''fat'', ''calories'']))"

text \<open>
  An ingredient entry that the aggregation skips: an incomplete one, or one whose
  nutrient entry is present but empty (falsy), which the source treats as absent.
\<close>

definition skipped :: "'f runtime \<Rightarrow> (string \<rightharpoonup> 'f json) \<Rightarrow> 'f json \<Rightarrow> bool" where
  "skipped rt table i =
     (is_obj i \<and>
      (\<not> truthy rt (entry_field i ''name'') \<or>
       \<not> truthy rt (entry_field i ''weight_grams'') \<or>
       (is_str (entry_field i ''name'') \<and>
        (case nutrient_entry rt table i of None \<Rightarrow> True | Some e \<Rightarrow> \<not> truthy rt e))))"

text \<open>
  The specification's aggregation:
  \<^verbatim>\<open>contribution[macro] = nutrient_per_100g[macro] * (weight_grams / 100.0)\<close> with a missing
  macro field read as 0, added to a running total that starts at zero, over the entries
  that are not skipped, in their order; each total rounded to one decimal at the end.
\<close>

definition contribution :: "'f runtime \<Rightarrow> (string \<rightharpoonup> 'f json) \<Rightarrow> string \<Rightarrow> 'f json \<Rightarrow> 'f" where
  "contribution rt table macro i =
     float_mul rt
       (number rt (macro_value (case nutrient_entry rt table i of None \<Rightarrow> JNull | Some e \<Rightarrow> e) macro))
       (float_div rt (number rt (entry_field i ''weight_grams'')) (float_hundred rt))"

definition spec_total :: "'f runtime \<Rightarrow> (string \<rightharpoonup> 'f json) \<Rightarrow> string \<Rightarrow> 'f json list \<Rightarrow> 'f" where
  "spec_total rt table macro ings =
     float_round1 rt
       (foldl (float_add rt) (float_zero rt)
          (map (contribution rt table macro)
             (filter (\<lambda>i. \<not> skipped rt table i) ings)))"

definition spec_macros :: "'f runtime \<Rightarrow> (string \<rightharpoonup> 'f json) \<Rightarrow> 'f json list \<Rightarrow> 'f macros" where
  "spec_macros rt table ings =
     \<lparr>protein = spec_total rt table ''protein'' ings,
      carbs = spec_total rt table ''carbs'' ings,
      fat = spec_total rt table ''fat'' ings,
      calories = spec_total rt table ''calories'' ings\<rparr>"

text \<open>A catalog record on which the macro calculation meets no ill-typed value.\<close>

definition computable_recipe :: "'f runtime \<Rightarrow> (string \<rightharpoonup> 'f json) \<Rightarrow> 'f json \<Rightarrow> bool" where
  "computable_recipe rt table r =
     (lookup_entry r \<and>
      (case field r ''ingredients'' of
         Some (JList ings) \<Rightarrow> list_all (\<lambda>i. data_incomplete rt table i \<or> usable rt table i) ings
       | _ \<Rightarrow> False))"

section \<open>Sample catalogs\<close>

text \<open>
  The catalog and nutrient table of the specification's Omelette scenario, and a second
  pair: Salad lists lettuce twice (\<^verbatim>\<open>Lettuce\<close> and, with zero weight, \<^verbatim>\<open>lettuce\<close>) and
  tomato; Mystery has an ingredient the table does not know, an entry with an empty name
  and an entry without a weight. The table has an empty entry for salt.
\<close>

definition omelette_catalog :: "rat json list" where
  "omelette_catalog =
     [JObj [(''name'', JStr ''Omelette''),
            (''ingredients'', JList [JObj [(''name'', JStr ''egg''), (''weight_grams'', JInt 150)]])]]"

definition egg_table :: "string \<rightharpoonup> rat json" where
  "egg_table =
     [''egg'' \<mapsto> JObj [(''protein'', JInt 13), (''carbs'', JInt 1), (''fat'', JInt 11),
                        (''calories'', JInt 155)]]"

definition lettuce_entry :: "rat json" where
  "lettuce_entry = JObj [(''name'', JStr ''Lettuce''), (''weight_grams'', JInt 100)]"

definition spare_lettuce_entry :: "rat json" where
  "spare_lettuce_entry = JObj [(''name'', JStr ''lettuce''), (''weight_grams'', JInt 0)]"

definition tomato_entry :: "rat json" where
  "tomato_entry = JObj [(''name'', JStr ''tomato''), (''weight_grams'', JInt 50)]"

definition salad :: "rat json" where
  "salad =
     JObj [(''name'', JStr ''Salad''),
           (''ingredients'', JList [lettuce_entry, spare_lettuce_entry, tomato_entry])]"

definition mystery :: "rat json" where
  "mystery =
     JObj [(''name'', JStr ''Mystery''),
           (''ingredients'',
              JList [JObj [(''name'', JStr ''unobtainium''), (''weight_grams'', JInt 50)],
                     JObj [(''name'', JStr []), (''weight_grams'', JInt 50)],
                     JObj [(''name'', JStr ''tomato'')]])]"

definition pantry_catalog :: "rat json list" where
  "pantry_catalog = [salad, mystery]"

definition pantry_table :: "string \<rightharpoonup> rat json" where
  "pantry_table =
     [''lettuce'' \<mapsto> JObj [(''protein'', JInt 1), (''carbs'', JInt 3), (''calories'', JInt 15)],
      ''tomato'' \<mapsto> JObj [(''protein'', JInt 1), (''carbs'', JInt 4), (''fat'', JInt 0),
                           (''calories'', JInt 18)],
      ''salt'' \<mapsto> JObj []]"

text \<open>
  A third record, Soup, with a salted ingredient (the table's entry for salt is empty),
  and a catalog in which it comes last.
\<close>

definition soup :: "rat json" where
  "soup =
     JObj [(''name'', JStr ''Soup''),
           (''ingredients'',
              JList [JObj [(''name'', JStr ''Tomato''), (''weight_grams'', JInt 150)],
                     JObj [(''name'', JStr ''Salt''), (''weight_grams'', JInt 50)],
                     JObj [(''name'', JStr ''lettuce''), (''weight_grams'', JInt 50)]])]"

definition menu_catalog :: "rat json list" where
  "menu_catalog = [salad, mystery, soup]"

section \<open>Properties\<close>

subsection \<open>Sequencing and the matching loop\<close>

lemma map_err_Inr_map: "map_err (\<lambda>x. Inr (f x)) xs = Inr (map f xs)"
  by (induction xs) simp_all

lemma map_err_cong_set: "(\<And>x. x \<in> set xs \<Longrightarrow> f x = g x) \<Longrightarrow> map_err f xs = map_err g xs"
  by (induction xs) simp_all

lemma map_err_map: "map_err f (map g xs) = map_err (\<lambda>x. f (g x)) xs"
  by (induction xs) simp_all

lemma map_err_append:
  "map_err f (xs @ ys) =
     bindE (map_err f xs) (\<lambda>as. bindE (map_err f ys) (\<lambda>bs. Inr (as @ bs)))"
proof (induction xs)
  case Nil
  show ?case by (cases "map_err f ys") simp_all
next
  case (Cons x xs)
  show ?case
  proof (cases "f x")
    case (Inl e)
    then show ?thesis by simp
  next
    case (Inr y)
    then show ?thesis using Cons
      by (cases "map_err f xs"; cases "map_err f ys") simp_all
  qed
qed

lemma named_entry_lower:
  "named_entry i \<Longrightarrow> bindE (py_getitem i ''name'') (py_lower rt) = Inr (str_lower rt (entry_name i))"
  by (cases i) (auto simp: named_entry_def entry_name_def split: option.splits json.splits)

lemma required_set_matchable:
  assumes "matchable_recipe r"
  shows "required_set rt r = Inr (str_lower rt ` set (required_names r))"
proof -
  from assms obtain kvs n xs where r: "r = JObj kvs" and
    n: "map_of kvs ''name'' = Some n" and
    xs: "map_of kvs ''ingredients'' = Some (JList xs)" and
    all: "list_all named_entry xs"
    by (cases r) (auto simp: matchable_recipe_def split: option.splits json.splits)
  have "map_err (\<lambda>i. bindE (py_getitem i ''name'') (py_lower rt)) xs
        = map_err (\<lambda>i. Inr (str_lower rt (entry_name i))) xs"
    using all by (intro map_err_cong_set) (simp add: list_all_iff named_entry_lower)
  then show ?thesis
    using r xs
    by (simp add: required_set_def map_err_Inr_map required_names_def ingredient_entries_def image_image)
qed

lemma getitem_name_matchable:
  "matchable_recipe r \<Longrightarrow> py_getitem r ''name'' = Inr (recipe_name r)"
  by (cases r) (auto simp: matchable_recipe_def recipe_name_def split: option.splits)

lemma match_loop_matchable:
  "list_all matchable_recipe db \<Longrightarrow>
   match_loop rt av k db acc =
     Inr (acc @ map recipe_name
            (filter (\<lambda>r. int (card (str_lower rt ` set (required_names r) - av)) \<le> k) db))"
proof (induction db arbitrary: acc)
  case Nil
  show ?case by simp
next
  case (Cons r db)
  then show ?case
    by (simp add: required_set_matchable getitem_name_matchable Let_def)
qed

lemma find_recipies_matchable:
  "list_all matchable_recipe db \<Longrightarrow>
   find_recipies rt (map JStr A) k db = Inr (spec_matches rt A k db)"
  by (simp add: find_recipies_def map_err_map map_err_Inr_map match_loop_matchable
      spec_matches_def missing_names_def)


lemma find_recipies_lowered:
  "list_all matchable_recipe db \<Longrightarrow>
   find_recipies rt A k db =
     bindE (map_err (py_lower rt) A) (\<lambda>lowered.
       Inr (map recipe_name
             (filter (\<lambda>r. int (card (str_lower rt ` set (required_names r) - set lowered)) \<le> k)
                db)))"
  by (simp add: find_recipies_def match_loop_matchable)

lemma map_err_lower_strs:
  "list_all is_str xs \<Longrightarrow> \<exists>ls. map_err (py_lower rt) xs = Inr ls"
proof (induction xs)
  case Nil
  show ?case by simp
next
  case (Cons x xs)
  then obtain ls where "map_err (py_lower rt) xs = Inr ls" by auto
  moreover from Cons.prems obtain s where "x = JStr s" by (cases x) simp_all
  ultimately show ?case by simp
qed

subsection \<open>The aggregation loop and the catalog lookup\<close>

lemma py_get_obj: "is_obj i \<Longrightarrow> py_get i key JNull = Inr (entry_field i key)"
  by (cases i) (simp_all add: entry_field_def split: option.splits)

lemma process_incomplete:
  assumes "data_incomplete rt table i"
  shows "process_ingredient rt table t i = Inr t"
proof -
  from assms have obj: "is_obj i" by (simp add: data_incomplete_def)
  show ?thesis
  proof (cases "\<not> truthy rt (entry_field i ''name'') \<or> \<not> truthy rt (entry_field i ''weight_grams'')")
    case True
    then show ?thesis
      using obj by (simp add: process_ingredient_def py_get_obj)
  next
    case False
    with assms obtain s where s: "entry_field i ''name'' = JStr s"
      and none: "table (str_lower rt s) = None"
      by (cases "entry_field i ''name''") (auto simp: data_incomplete_def nutrient_entry_def)
    show ?thesis
      using obj False s none by (simp add: process_ingredient_def py_get_obj)
  qed
qed

lemma add_macro_numeric:
  "is_obj e \<Longrightarrow> numeric rt (macro_value e macro) \<Longrightarrow>
   add_macro rt e scale macro running =
     Inr (float_add rt running (float_mul rt (number rt (macro_value e macro)) scale))"
  by (cases e)
     (auto simp: add_macro_def numeric_def number_def macro_value_def
           split: option.splits sum.splits)

lemma process_usable:
  assumes "usable rt table i"
  shows "process_ingredient rt table t i =
     Inr \<lparr>protein = float_add rt (protein t) (contribution rt table ''protein'' i),
          carbs = float_add rt (carbs t) (contribution rt table ''carbs'' i),
          fat = float_add rt (fat t) (contribution rt table ''fat'' i),
          calories = float_add rt (calories t) (contribution rt table ''calories'' i)\<rparr>"
proof -
  from assms have obj: "is_obj i"
    and tn: "truthy rt (entry_field i ''name'')"
    and tw: "truthy rt (entry_field i ''weight_grams'')"
    and nw: "numeric rt (entry_field i ''weight_grams'')"
    by (simp_all add: usable_def)
  from assms obtain s where s: "entry_field i ''name'' = JStr s"
    by (cases "entry_field i ''name''") (simp_all add: usable_def)
  from assms s obtain e where e: "table (str_lower rt s) = Some e"
    and ne: "nutrient_entry rt table i = Some e"
    and eobj: "is_obj e" and te: "truthy rt e"
    and num: "numeric rt (macro_value e ''protein'')" "numeric rt (macro_value e ''carbs'')"
       "numeric rt (macro_value e ''fat'')" "numeric rt (macro_value e ''calories'')"
    by (auto simp: usable_def nutrient_entry_def split: option.splits)
  from nw obtain w where w: "as_float rt (entry_field i ''weight_grams'') = Inr w"
    by (auto simp: numeric_def split: sum.splits)
  then have nbw: "number rt (entry_field i ''weight_grams'') = w"
    by (simp add: number_def)
  show ?thesis
    using obj tn tw s e te w
    by (simp add: process_ingredient_def py_get_obj add_macro_numeric [OF eobj] num
        contribution_def ne nbw Let_def)
qed

lemma incomplete_skipped: "data_incomplete rt table i \<Longrightarrow> skipped rt table i"
  by (auto simp: data_incomplete_def skipped_def)

lemma process_skipped:
  assumes "skipped rt table i"
  shows "process_ingredient rt table t i = Inr t"
proof (cases "data_incomplete rt table i")
  case True
  then show ?thesis by (rule process_incomplete)
next
  case False
  from assms have obj: "is_obj i" by (simp add: skipped_def)
  from assms False obtain s e where s: "entry_field i ''name'' = JStr s"
    and e: "table (str_lower rt s) = Some e" and falsy: "\<not> truthy rt e"
    by (cases "entry_field i ''name''")
       (auto simp: skipped_def data_incomplete_def nutrient_entry_def split: option.splits)
  show ?thesis
    using obj s e falsy by (simp add: process_ingredient_def py_get_obj)
qed

lemma usable_not_skipped: "usable rt table i \<Longrightarrow> \<not> skipped rt table i"
  by (auto simp: usable_def skipped_def split: option.splits)

lemma macro_loop_spec:
  "list_all (\<lambda>i. skipped rt table i \<or> usable rt table i) ings \<Longrightarrow>
   macro_loop rt table ings t =
     Inr \<lparr>protein = foldl (float_add rt) (protein t)
            (map (contribution rt table ''protein'') (filter (\<lambda>i. \<not> skipped rt table i) ings)),
          carbs = foldl (float_add rt) (carbs t)
            (map (contribution rt table ''carbs'') (filter (\<lambda>i. \<not> skipped rt table i) ings)),
          fat = foldl (float_add rt) (fat t)
            (map (contribution rt table ''fat'') (filter (\<lambda>i. \<not> skipped rt table i) ings)),
          calories = foldl (float_add rt) (calories t)
            (map (contribution rt table ''calories'') (filter (\<lambda>i. \<not> skipped rt table i) ings))\<rparr>"
proof (induction ings arbitrary: t)
  case Nil
  show ?case by simp
next
  case (Cons i ings)
  from Cons.prems have rest: "list_all (\<lambda>i. skipped rt table i \<or> usable rt table i) ings"
    by simp
  show ?case
  proof (cases "skipped rt table i")
    case True
    then show ?thesis
      using Cons.IH [OF rest] by (simp add: process_skipped)
  next
    case False
    with Cons.prems have "usable rt table i" by simp
    then show ?thesis
      using False Cons.IH [OF rest] by (simp add: process_usable)
  qed
qed

lemma macro_loop_skip:
  "data_incomplete rt table i \<Longrightarrow>
   macro_loop rt table (xs @ i # ys) t = macro_loop rt table (xs @ ys) t"
proof (induction xs arbitrary: t)
  case Nil
  then show ?case by (simp add: process_incomplete)
next
  case (Cons x xs)
  then show ?case
    by (cases "process_ingredient rt table t x") simp_all
qed

lemma macro_loop_filter:
  "macro_loop rt table ings t =
   macro_loop rt table (filter (\<lambda>i. \<not> data_incomplete rt table i) ings) t"
proof (induction ings arbitrary: t)
  case Nil
  show ?case by simp
next
  case (Cons i ings)
  show ?case
  proof (cases "data_incomplete rt table i")
    case True
    then show ?thesis using Cons.IH by (simp add: process_incomplete)
  next
    case False
    then show ?thesis using Cons.IH
      by (cases "process_ingredient rt table t i") simp_all
  qed
qed

lemma lookup_entry_lower:
  "lookup_entry r \<Longrightarrow>
   bindE (py_get r ''name'' (JStr [])) (py_lower rt) = Inr (str_lower rt (lookup_name r))"
  by (cases r; cases "field r ''name''"; cases "the (field r ''name'')")
     (auto simp: lookup_entry_def lookup_name_def split: option.splits)


lemma find_target_lookup:
  "list_all lookup_entry db \<Longrightarrow>
   find_target rt db (JStr n) =
     Inr (List.find (\<lambda>r. str_lower rt (lookup_name r) = str_lower rt n) db)"
proof (induction db)
  case Nil
  show ?case by simp
next
  case (Cons r db)
  then have "lookup_entry r" by simp
  from lookup_entry_lower [OF this, of rt] Cons show ?case
    by (cases "py_get r ''name'' (JStr [])") auto
qed

lemma find_target_lower_cong:
  assumes "py_lower rt recipe = py_lower rt recipe'"
  shows "find_target rt db recipe = find_target rt db recipe'"
proof (induction db)
  case Nil
  show ?case by simp
next
  case (Cons r db)
  show ?case
    unfolding find_target.simps assms Cons.IH ..
qed

lemma process_falsy_entry:
  assumes "table k = Some e" and "\<not> truthy rt e"
  shows "process_ingredient rt (table(k := None)) t i = process_ingredient rt table t i"
  using assms by (auto simp: process_ingredient_def Let_def intro!: arg_cong2 [where f = bindE] ext)

lemma macro_loop_falsy_entry:
  assumes "table k = Some e" and "\<not> truthy rt e"
  shows "macro_loop rt (table(k := None)) ings t = macro_loop rt table ings t"
proof (induction ings arbitrary: t)
  case Nil
  show ?case by simp
next
  case (Cons i ings)
  show ?case
    unfolding macro_loop.simps process_falsy_entry [of table k e rt, OF assms]
    by (cases "process_ingredient rt table t i") (simp_all add: Cons.IH)
qed

lemma field_getitem: "field r key = Some v \<Longrightarrow> py_getitem r key = Inr v"
  by (cases r) simp_all

lemma calculate_found:
  assumes "find_target rt db recipe = Inr (Some r)"
    and "field r ''ingredients'' = Some (JList ings)"
  shows "calculate_recipe_macros rt recipe db table =
           bindE (macro_loop rt table ings (zero_macros rt))
             (\<lambda>t. Inr (Some (round_macros rt t)))"
  using assms by (simp add: calculate_recipe_macros_def field_getitem)

lemma calculate_not_found:
  "find_target rt db recipe = Inr None \<Longrightarrow> calculate_recipe_macros rt recipe db table = Inr None"
  by (simp add: calculate_recipe_macros_def)

lemma map_err_lower_JStr: "map_err (py_lower rt) (map JStr A) = Inr (map (str_lower rt) A)"
  by (simp add: map_err_map map_err_Inr_map)

lemma map_err_lower_other:
  "\<not> list_all is_str xs \<Longrightarrow> map_err (py_lower rt) xs = Inl AttributeError"
proof (induction xs)
  case Nil
  then show ?case by simp
next
  case (Cons x xs)
  show ?case
  proof (cases "is_str x")
    case True
    then obtain s where "x = JStr s" by (cases x) simp_all
    with Cons show ?thesis by simp
  next
    case False
    then show ?thesis by (cases x) simp_all
  qed
qed


lemma spec_macros_loop:
  assumes "list_all (\<lambda>i. skipped rt table i \<or> usable rt table i) ings"
  shows "bindE (macro_loop rt table ings (zero_macros rt)) (\<lambda>t. Inr (Some (round_macros rt t))) =
           Inr (Some (spec_macros rt table ings))"
  by (simp add: macro_loop_spec [OF assms] round_macros_def spec_macros_def spec_total_def
      zero_macros_def)

lemma calculate_returns:
  assumes "list_all (computable_recipe rt table) db"
  shows "\<exists>res. calculate_recipe_macros rt (JStr n) db table = Inr res"
proof -
  from assms have "list_all lookup_entry db"
    by (simp add: list_all_iff computable_recipe_def)
  then have target: "find_target rt db (JStr n) =
      Inr (List.find (\<lambda>r. str_lower rt (lookup_name r) = str_lower rt n) db)"
    by (rule find_target_lookup)
  show ?thesis
  proof (cases "List.find (\<lambda>r. str_lower rt (lookup_name r) = str_lower rt n) db")
    case None
    with target show ?thesis by (simp add: calculate_not_found)
  next
    case (Some r)
    then have "r \<in> set db"
      by (auto simp: find_Some_iff)
    with assms have "computable_recipe rt table r"
      by (simp add: list_all_iff)
    then obtain ings where ings: "field r ''ingredients'' = Some (JList ings)"
      and "list_all (\<lambda>i. data_incomplete rt table i \<or> usable rt table i) ings"
      by (auto simp: computable_recipe_def split: option.splits json.splits)
    then have ok: "list_all (\<lambda>i. skipped rt table i \<or> usable rt table i) ings"
      by (auto simp: list_all_iff dest: incomplete_skipped)
    from target Some have "find_target rt db (JStr n) = Inr (Some r)" by simp
    from calculate_found [OF this ings] spec_macros_loop [OF ok] show ?thesis by simp
  qed
qed

subsection \<open>Running the sample catalogs\<close>

lemmas sample_defs = omelette_catalog_def egg_table_def lettuce_entry_def spare_lettuce_entry_def
  tomato_entry_def salad_def mystery_def pantry_catalog_def pantry_table_def

lemmas runtime_defs = exact_runtime_def ascii_lower_def ascii_lower_char_def round_half_even_def

lemmas find_defs = find_recipies_def required_set_def

lemmas calc_defs = calculate_recipe_macros_def process_ingredient_def add_macro_def
  zero_macros_def round_macros_def Let_def

lemmas shape_defs = named_entry_def matchable_recipe_def entry_field_def lookup_entry_def
  nutrient_entry_def data_incomplete_def skipped_def numeric_def macro_value_def usable_def
  computable_recipe_def

lemma pantry_matchable: "list_all matchable_recipe pantry_catalog"
  by (simp add: sample_defs shape_defs)

lemma pantry_computable: "list_all (computable_recipe exact_runtime pantry_table) pantry_catalog"
  by (simp add: sample_defs runtime_defs shape_defs)

lemma pantry_lettuce_1:
  "find_recipies exact_runtime (map JStr [''LETTUCE'']) 1 pantry_catalog = Inr [JStr ''Salad'']"
  by (simp add: sample_defs runtime_defs find_defs)

lemma pantry_lettuce_0:
  "find_recipies exact_runtime (map JStr [''LETTUCE'']) 0 pantry_catalog = Inr []"
  by (simp add: sample_defs runtime_defs find_defs)

lemma pantry_salad_found:
  "find_target exact_runtime pantry_catalog (JStr ''SALAD'') = Inr (Some salad)"
  by (simp add: sample_defs runtime_defs)


subsection \<open>Claims about \<^verbatim>\<open>find_recipies\<close>\<close>

text \<open>
  C1. Over a catalog of well-formed records (each a dict with a name and a list of
  ingredient entries that carry a string name), for every list of available names and
  every \<open>max_missing\<close>, \<^verbatim>\<open>find_recipies\<close> returns exactly the names, in catalog order, of
  the recipes for which the set of lowercased required names minus the set of lowercased
  available names has at most \<open>max_missing\<close> elements. The count is the cardinality of a
  set difference, so a requirement listed twice counts once and an available name that a
  recipe does not use leaves its count unchanged.
\<close>

theorem find_recipies_selects_by_missing_count:
  assumes "list_all matchable_recipe catalog"
  shows "find_recipies rt (map JStr available) max_missing catalog =
           Inr (spec_matches rt available max_missing catalog)"
  using assms by (rule find_recipies_matchable)

theorem find_recipies_selects_by_missing_count_witness:
  "list_all matchable_recipe pantry_catalog \<and>
   find_recipies exact_runtime (map JStr [''LETTUCE'']) 1 pantry_catalog =
     Inr (spec_matches exact_runtime [''LETTUCE''] 1 pantry_catalog) \<and>
   spec_matches exact_runtime [''LETTUCE''] 1 pantry_catalog = [JStr ''Salad''] \<and>
   spec_matches exact_runtime [''LETTUCE''] 0 pantry_catalog = []"
  using find_recipies_selects_by_missing_count [OF pantry_matchable, of exact_runtime "[''LETTUCE'']" 1]
    find_recipies_selects_by_missing_count [OF pantry_matchable, of exact_runtime "[''LETTUCE'']" 0]
    pantry_matchable pantry_lettuce_1 pantry_lettuce_0
  by simp

text \<open>
  C7. Matching is monotone in \<open>max_missing\<close>: over a catalog of well-formed records, if
  \<^verbatim>\<open>find_recipies(available, k)\<close> returns a list and \<open>k < k'\<close>, then
  \<^verbatim>\<open>find_recipies(available, k')\<close> returns a list too, and every name in the first is in
  the second.
\<close>

theorem find_recipies_monotone_in_max_missing:
  assumes db: "list_all matchable_recipe db"
    and run: "find_recipies rt A k db = Inr xs"
    and le: "k < k'"
  shows "\<exists>ys. find_recipies rt A k' db = Inr ys \<and> set xs \<subseteq> set ys"
proof -
  from run db obtain lowered where low: "map_err (py_lower rt) A = Inr lowered"
    by (cases "map_err (py_lower rt) A") (simp_all add: find_recipies_lowered)
  let ?sel = "\<lambda>m. filter (\<lambda>r. int (card (str_lower rt ` set (required_names r) - set lowered)) \<le> m) db"
  have xs: "xs = map recipe_name (?sel k)"
    using run db low by (simp add: find_recipies_lowered)
  have ys: "find_recipies rt A k' db = Inr (map recipe_name (?sel k'))"
    using db low by (simp add: find_recipies_lowered)
  have "set (?sel k) \<subseteq> set (?sel k')"
    using le by auto
  then have "set xs \<subseteq> set (map recipe_name (?sel k'))"
    unfolding xs set_map by (rule image_mono)
  with ys show ?thesis by blast
qed

theorem find_recipies_monotone_in_max_missing_witness:
  "list_all matchable_recipe pantry_catalog \<and>
   find_recipies exact_runtime (map JStr [''LETTUCE'']) 1 pantry_catalog = Inr [JStr ''Salad''] \<and>
   (1::int) < 4 \<and>
   (\<exists>ys. find_recipies exact_runtime (map JStr [''LETTUCE'']) 4 pantry_catalog = Inr ys \<and>
         set [JStr ''Salad''] \<subseteq> set ys)"
  using find_recipies_monotone_in_max_missing [OF pantry_matchable pantry_lettuce_1, of 4]
    pantry_matchable pantry_lettuce_1
  by simp

text \<open>
  C8. Extra available ingredients are harmless: over a catalog of well-formed records,
  if \<^verbatim>\<open>find_recipies(A, max_missing)\<close> returns a list and \<open>extras\<close> is a list of strings,
  then \<^verbatim>\<open>find_recipies(A + extras, max_missing)\<close> returns a list that contains every
  name of the first.
\<close>

theorem find_recipies_extras_harmless:
  assumes db: "list_all matchable_recipe db"
    and extras: "list_all is_str extras"
    and run: "find_recipies rt A k db = Inr xs"
  shows "\<exists>ys. find_recipies rt (A @ extras) k db = Inr ys \<and> set xs \<subseteq> set ys"
proof -
  from run db obtain lowered where low: "map_err (py_lower rt) A = Inr lowered"
    by (cases "map_err (py_lower rt) A") (simp_all add: find_recipies_lowered)
  from map_err_lower_strs [OF extras] obtain more
    where more: "map_err (py_lower rt) extras = Inr more" by blast
  let ?sel = "\<lambda>av. filter (\<lambda>r. int (card (str_lower rt ` set (required_names r) - set av)) \<le> k) db"
  have xs: "xs = map recipe_name (?sel lowered)"
    using run db low by (simp add: find_recipies_lowered)
  have ys: "find_recipies rt (A @ extras) k db = Inr (map recipe_name (?sel (lowered @ more)))"
    using db low more by (simp add: find_recipies_lowered map_err_append)
  have fewer: "card (str_lower rt ` set (required_names r) - set (lowered @ more))
          \<le> card (str_lower rt ` set (required_names r) - set lowered)" for r :: "'a json"
    by (rule card_mono) auto
  have "set (?sel lowered) \<subseteq> set (?sel (lowered @ more))"
  proof
    fix r
    assume "r \<in> set (?sel lowered)"
    then have r: "r \<in> set db"
      and "int (card (str_lower rt ` set (required_names r) - set lowered)) \<le> k"
      by simp_all
    with fewer [of r]
    have "int (card (str_lower rt ` set (required_names r) - set (lowered @ more))) \<le> k"
      by linarith
    with r show "r \<in> set (?sel (lowered @ more))"
      by simp
  qed
  then have "set xs \<subseteq> set (map recipe_name (?sel (lowered @ more)))"
    unfolding xs set_map by (rule image_mono)
  with ys show ?thesis by blast
qed

theorem find_recipies_extras_harmless_witness:
  "list_all matchable_recipe pantry_catalog \<and>
   list_all is_str [JStr ''Kale'', JStr []] \<and>
   find_recipies exact_runtime (map JStr [''LETTUCE'']) 1 pantry_catalog = Inr [JStr ''Salad''] \<and>
   (\<exists>ys. find_recipies exact_runtime (map JStr [''LETTUCE''] @ [JStr ''Kale'', JStr []]) 1
            pantry_catalog = Inr ys \<and>
         set [JStr ''Salad''] \<subseteq> set ys)"
proof -
  have strs: "list_all is_str [JStr ''Kale'', JStr [] :: rat json]"
    by simp
  show ?thesis
    using find_recipies_extras_harmless [OF pantry_matchable strs pantry_lettuce_1]
      pantry_matchable pantry_lettuce_1
    by simp
qed

subsection \<open>Claims about \<^verbatim>\<open>calculate_recipe_macros\<close>\<close>

text \<open>
  C2. Over a catalog whose records can be looked up (each a dict whose name, if present,
  is a string), for every recipe name that equals a record's name after lowercasing, the
  first such record being \<open>r\<close> with ingredient entries that are each either skipped or
  complete and well typed, \<^verbatim>\<open>calculate_recipe_macros\<close> returns the four totals of the
  specification for \<open>r\<close>: for each macro, the sum over the entries of \<open>r\<close> that are not
  skipped, in order and starting from zero, of
  \<^verbatim>\<open>nutrient_per_100g[macro] * (weight_grams / 100.0)\<close>, a macro field absent from the
  nutrient entry read as 0, rounded to one decimal at the end. In the Omelette scenario
  (150 g of egg, egg = 13 / 1 / 11 / 155 per 100 g) the result is 19.5 protein, 1.5 carbs,
  16.5 fat and 232.5 calories.
\<close>

theorem calculate_recipe_macros_totals:
  assumes "list_all lookup_entry db"
    and "List.find (\<lambda>r. str_lower rt (lookup_name r) = str_lower rt n) db = Some r"
    and "field r ''ingredients'' = Some (JList ings)"
    and "list_all (\<lambda>i. skipped rt table i \<or> usable rt table i) ings"
  shows "calculate_recipe_macros rt (JStr n) db table = Inr (Some (spec_macros rt table ings)) \<and>
         calculate_recipe_macros exact_runtime (JStr ''Omelette'') omelette_catalog egg_table =
           Inr (Some \<lparr>protein = 39 / 2, carbs = 3 / 2, fat = 33 / 2, calories = 465 / 2\<rparr>)"
proof
  from find_target_lookup [OF assms(1), of rt n] assms(2)
  have "find_target rt db (JStr n) = Inr (Some r)"
    by simp
  from calculate_found [OF this assms(3)] spec_macros_loop [OF assms(4)]
  show "calculate_recipe_macros rt (JStr n) db table = Inr (Some (spec_macros rt table ings))"
    by simp
  show "calculate_recipe_macros exact_runtime (JStr ''Omelette'') omelette_catalog egg_table =
          Inr (Some \<lparr>protein = 39 / 2, carbs = 3 / 2, fat = 33 / 2, calories = 465 / 2\<rparr>)"
    by (simp add: sample_defs runtime_defs calc_defs)
qed

theorem calculate_recipe_macros_totals_witness:
  "list_all lookup_entry menu_catalog \<and>
   List.find (\<lambda>r. str_lower exact_runtime (lookup_name r) = str_lower exact_runtime ''SOUP'')
     menu_catalog = Some soup \<and>
   field soup ''ingredients'' = Some (JList (ingredient_entries soup)) \<and>
   list_all (\<lambda>i. skipped exact_runtime pantry_table i \<or> usable exact_runtime pantry_table i)
     (ingredient_entries soup) \<and>
   calculate_recipe_macros exact_runtime (JStr ''SOUP'') menu_catalog pantry_table =
     Inr (Some (spec_macros exact_runtime pantry_table (ingredient_entries soup))) \<and>
   spec_macros exact_runtime pantry_table (ingredient_entries soup) =
     \<lparr>protein = 2, carbs = 15 / 2, fat = 0, calories = 69 / 2\<rparr>"
proof -
  have look: "list_all lookup_entry menu_catalog"
    by (simp add: menu_catalog_def soup_def sample_defs lookup_entry_def)
  have first: "List.find
      (\<lambda>r. str_lower exact_runtime (lookup_name r) = str_lower exact_runtime ''SOUP'')
      menu_catalog = Some soup"
    by (simp add: menu_catalog_def soup_def sample_defs runtime_defs lookup_name_def)
  have ings: "field soup ''ingredients'' = Some (JList (ingredient_entries soup))"
    by (simp add: soup_def ingredient_entries_def)
  have ok: "list_all (\<lambda>i. skipped exact_runtime pantry_table i \<or> usable exact_runtime pantry_table i)
      (ingredient_entries soup)"
    by (simp add: soup_def ingredient_entries_def sample_defs runtime_defs shape_defs)
  have val: "calculate_recipe_macros exact_runtime (JStr ''SOUP'') menu_catalog pantry_table =
      Inr (Some \<lparr>protein = 2, carbs = 15 / 2, fat = 0, calories = 69 / 2\<rparr>)"
    by (simp add: menu_catalog_def soup_def sample_defs runtime_defs calc_defs)
  from calculate_recipe_macros_totals [OF look first ings ok]
  have run: "calculate_recipe_macros exact_runtime (JStr ''SOUP'') menu_catalog pantry_table =
      Inr (Some (spec_macros exact_runtime pantry_table (ingredient_entries soup)))"
    by blast
  from trans [OF run [symmetric] val]
  have "spec_macros exact_runtime pantry_table (ingredient_entries soup) =
        \<lparr>protein = 2, carbs = 15 / 2, fat = 0, calories = 69 / 2\<rparr>"
    by simp
  with look first ings ok run show ?thesis by blast
qed

text \<open>
  C3. Over a catalog whose records can be looked up (each a dict whose name, if present,
  is a string), a recipe name that equals no record's name after lowercasing makes
  \<^verbatim>\<open>calculate_recipe_macros\<close> return \<^verbatim>\<open>None\<close>, which is not the zero-filled result.
\<close>

theorem unknown_recipe_returns_none:
  assumes "list_all lookup_entry db"
    and "\<forall>r \<in> set db. str_lower rt (lookup_name r) \<noteq> str_lower rt n"
  shows "calculate_recipe_macros rt (JStr n) db table = Inr None \<and>
         calculate_recipe_macros rt (JStr n) db table \<noteq> Inr (Some (round_macros rt (zero_macros rt)))"
proof -
  from assms(2) have "List.find (\<lambda>r. str_lower rt (lookup_name r) = str_lower rt n) db = None"
    by (simp add: find_None_iff)
  with find_target_lookup [OF assms(1), of rt n]
  have "find_target rt db (JStr n) = Inr None" by simp
  then show ?thesis by (simp add: calculate_not_found)
qed

theorem unknown_recipe_returns_none_witness:
  "list_all lookup_entry pantry_catalog \<and>
   str_lower exact_runtime (lookup_name salad) \<noteq> str_lower exact_runtime ''totally-unknown-recipe'' \<and>
   str_lower exact_runtime (lookup_name mystery) \<noteq> str_lower exact_runtime ''totally-unknown-recipe'' \<and>
   calculate_recipe_macros exact_runtime (JStr ''totally-unknown-recipe'') pantry_catalog pantry_table =
     Inr None"
proof -
  have look: "list_all lookup_entry pantry_catalog"
    by (simp add: sample_defs lookup_entry_def)
  have salad: "str_lower exact_runtime (lookup_name salad) \<noteq>
      str_lower exact_runtime ''totally-unknown-recipe''"
    by (simp add: sample_defs runtime_defs lookup_name_def)
  have mystery: "str_lower exact_runtime (lookup_name mystery) \<noteq>
      str_lower exact_runtime ''totally-unknown-recipe''"
    by (simp add: sample_defs runtime_defs lookup_name_def)
  from salad mystery have other: "\<forall>r \<in> set pantry_catalog.
      str_lower exact_runtime (lookup_name r) \<noteq> str_lower exact_runtime ''totally-unknown-recipe''"
    by (simp add: pantry_catalog_def)
  from unknown_recipe_returns_none [OF look other, of pantry_table] look salad mystery
  show ?thesis by blast
qed



text \<open>
  C5. An incomplete ingredient entry (name missing or empty, weight missing, zero or
  falsy, or no nutrient entry for the lowercased name) leaves every running total as it
  is, and the loop goes on with the entries after it: the loop over a list that contains
  the entry does what the loop over the list without it does, and so does the whole
  calculation of the recipe the lookup selects.
\<close>

theorem incomplete_entry_is_skipped:
  assumes "data_incomplete rt table i"
    and "find_target rt db recipe = Inr (Some r)"
    and "field r ''ingredients'' = Some (JList (xs @ i # ys))"
  shows "process_ingredient rt table t i = Inr t \<and>
         macro_loop rt table (xs @ i # ys) t = macro_loop rt table (xs @ ys) t \<and>
         calculate_recipe_macros rt recipe db table =
           bindE (macro_loop rt table (xs @ ys) (zero_macros rt))
             (\<lambda>t. Inr (Some (round_macros rt t)))"
  using process_incomplete [OF assms(1)] macro_loop_skip [OF assms(1)]
    calculate_found [OF assms(2,3), of table]
  by simp

theorem incomplete_entry_is_skipped_witness:
  "data_incomplete exact_runtime pantry_table spare_lettuce_entry \<and>
   find_target exact_runtime pantry_catalog (JStr ''SALAD'') = Inr (Some salad) \<and>
   field salad ''ingredients'' = Some (JList ([lettuce_entry] @ spare_lettuce_entry # [tomato_entry])) \<and>
   calculate_recipe_macros exact_runtime (JStr ''SALAD'') pantry_catalog pantry_table =
     bindE (macro_loop exact_runtime pantry_table ([lettuce_entry] @ [tomato_entry])
              (zero_macros exact_runtime))
       (\<lambda>t. Inr (Some (round_macros exact_runtime t))) \<and>
   calculate_recipe_macros exact_runtime (JStr ''SALAD'') pantry_catalog pantry_table =
     Inr (Some \<lparr>protein = 3 / 2, carbs = 5, fat = 0, calories = 24\<rparr>)"
proof -
  have inc: "data_incomplete exact_runtime pantry_table spare_lettuce_entry"
    by (simp add: sample_defs runtime_defs shape_defs)
  have ings: "field salad ''ingredients'' =
      Some (JList ([lettuce_entry] @ spare_lettuce_entry # [tomato_entry]))"
    by (simp add: salad_def)
  have run: "calculate_recipe_macros exact_runtime (JStr ''SALAD'') pantry_catalog pantry_table =
      Inr (Some \<lparr>protein = 3 / 2, carbs = 5, fat = 0, calories = 24\<rparr>)"
    by (simp add: sample_defs runtime_defs calc_defs)
  from incomplete_entry_is_skipped [OF inc pantry_salad_found ings] inc pantry_salad_found ings run
  show ?thesis by simp
qed

text \<open>
  C10. A nutrient entry that is present but falsy (an empty dict, for one) is treated as
  an absent one: an ingredient whose lowercased name has such an entry leaves the totals
  unchanged, and removing the entry from the table changes no result.
\<close>

theorem falsy_nutrient_entry_as_absent:
  assumes "table k = Some e" and "\<not> truthy rt e"
    and "is_obj i" and "entry_field i ''name'' = JStr s" and "str_lower rt s = k"
  shows "process_ingredient rt table t i = Inr t \<and>
         process_ingredient rt (table(k := None)) t i = Inr t \<and>
         calculate_recipe_macros rt recipe db (table(k := None)) =
           calculate_recipe_macros rt recipe db table"
proof -
  have absent: "process_ingredient rt (table(k := None)) t i = Inr t"
    using assms(3-5) by (simp add: process_ingredient_def py_get_obj)
  have loops: "macro_loop rt (table(k := None)) ings u = macro_loop rt table ings u" for ings u
    using assms(1,2) by (rule macro_loop_falsy_entry [of table k e rt])
  have "calculate_recipe_macros rt recipe db (table(k := None)) =
        calculate_recipe_macros rt recipe db table"
    unfolding calculate_recipe_macros_def loops ..
  with absent process_falsy_entry [of table k e rt t i, OF assms(1,2)] show ?thesis by simp
qed

theorem falsy_nutrient_entry_as_absent_witness:
  "pantry_table ''salt'' = Some (JObj []) \<and> \<not> truthy exact_runtime (JObj []) \<and>
   is_obj (JObj [(''name'', JStr ''Salt''), (''weight_grams'', JInt 50 :: rat json)]) \<and>
   entry_field (JObj [(''name'', JStr ''Salt''), (''weight_grams'', JInt 50 :: rat json)]) ''name'' =
     JStr ''Salt'' \<and>
   str_lower exact_runtime ''Salt'' = ''salt'' \<and>
   process_ingredient exact_runtime pantry_table (zero_macros exact_runtime)
     (JObj [(''name'', JStr ''Salt''), (''weight_grams'', JInt 50)]) = Inr (zero_macros exact_runtime) \<and>
   calculate_recipe_macros exact_runtime (JStr ''SALAD'') pantry_catalog (pantry_table(''salt'' := None)) =
     calculate_recipe_macros exact_runtime (JStr ''SALAD'') pantry_catalog pantry_table"
proof -
  have entry: "pantry_table ''salt'' = Some (JObj [])"
    by (simp add: pantry_table_def)
  have falsy: "\<not> truthy exact_runtime (JObj [] :: rat json)"
    by simp
  have obj: "is_obj (JObj [(''name'', JStr ''Salt''), (''weight_grams'', JInt 50 :: rat json)])"
    by simp
  have name: "entry_field (JObj [(''name'', JStr ''Salt''), (''weight_grams'', JInt 50 :: rat json)])
      ''name'' = JStr ''Salt''"
    by (simp add: entry_field_def)
  have low: "str_lower exact_runtime ''Salt'' = ''salt''"
    by (simp add: runtime_defs)
  from falsy_nutrient_entry_as_absent
      [where table = pantry_table and k = "''salt''" and rt = exact_runtime
         and t = "zero_macros exact_runtime" and recipe = "JStr ''SALAD''" and db = pantry_catalog,
       OF entry falsy obj name low]
    entry falsy obj name low
  show ?thesis by simp
qed

subsection \<open>Claims about both tools\<close>

text \<open>
  C9. Both results are invariant under case changes of the input: two lists of available
  names that are equal after lowercasing give the same result of \<^verbatim>\<open>find_recipies\<close>, and
  two recipe names that are equal after lowercasing give the same result of
  \<^verbatim>\<open>calculate_recipe_macros\<close>.
\<close>

theorem results_ignore_input_case:
  assumes "map (str_lower rt) A = map (str_lower rt) A'"
    and "str_lower rt n = str_lower rt n'"
  shows "find_recipies rt (map JStr A) k db = find_recipies rt (map JStr A') k db \<and>
         calculate_recipe_macros rt (JStr n) db table = calculate_recipe_macros rt (JStr n') db table"
proof
  show "find_recipies rt (map JStr A) k db = find_recipies rt (map JStr A') k db"
    using assms(1) by (simp add: find_recipies_def map_err_lower_JStr)
  from assms(2) have "py_lower rt (JStr n) = py_lower rt (JStr n')"
    by simp
  then have "find_target rt db (JStr n) = find_target rt db (JStr n')"
    by (rule find_target_lower_cong)
  then show "calculate_recipe_macros rt (JStr n) db table =
             calculate_recipe_macros rt (JStr n') db table"
    by (simp add: calculate_recipe_macros_def)
qed

theorem results_ignore_input_case_witness:
  "map (str_lower exact_runtime) [''LETTUCE'', ''tomato''] =
     map (str_lower exact_runtime) [''lettuce'', ''ToMaTo''] \<and>
   str_lower exact_runtime ''SALAD'' = str_lower exact_runtime ''Salad'' \<and>
   find_recipies exact_runtime (map JStr [''LETTUCE'', ''tomato'']) 0 pantry_catalog =
     find_recipies exact_runtime (map JStr [''lettuce'', ''ToMaTo'']) 0 pantry_catalog \<and>
   calculate_recipe_macros exact_runtime (JStr ''SALAD'') pantry_catalog pantry_table =
     calculate_recipe_macros exact_runtime (JStr ''Salad'') pantry_catalog pantry_table"
proof -
  have names: "map (str_lower exact_runtime) [''LETTUCE'', ''tomato''] =
      map (str_lower exact_runtime) [''lettuce'', ''ToMaTo'']"
    by (simp add: runtime_defs)
  have name: "str_lower exact_runtime ''SALAD'' = str_lower exact_runtime ''Salad''"
    by (simp add: runtime_defs)
  from results_ignore_input_case [OF names name, of 0 pantry_catalog pantry_table] names name
  show ?thesis by blast
qed

text \<open>
  C6, as the code has it. The claim that no input list makes the tools raise, and that
  an empty name never matches, fails twice. An element of the available list that is not
  a string has no \<^verbatim>\<open>lower\<close> method: \<^verbatim>\<open>find_recipies\<close> raises \<^verbatim>\<open>AttributeError\<close> before
  it looks at the catalog. And an empty available name does match a requirement whose name
  is empty: with it, the sample recipe Mystery misses two ingredients instead of three.
\<close>

theorem malformed_input_counterexample:
  "find_recipies exact_runtime [JStr ''egg'', JInt 1] 2 omelette_catalog = Inl AttributeError \<and>
   find_recipies exact_runtime [JStr []] 2 pantry_catalog = Inr [JStr ''Salad'', JStr ''Mystery''] \<and>
   find_recipies exact_runtime [] 2 pantry_catalog = Inr [JStr ''Salad'']"
  by (simp add: sample_defs runtime_defs find_defs)

text \<open>
  C6 amended. Over a catalog of well-formed records, every list of strings (the empty
  list and lists with empty strings included) and every string recipe name make
  \<^verbatim>\<open>find_recipies\<close> and \<^verbatim>\<open>calculate_recipe_macros\<close> return without raising, incomplete
  ingredient entries being skipped. An empty available name changes no result unless a
  recipe requires an ingredient whose lowercased name is the lowercased empty name. A list
  with an element that is not a string makes \<^verbatim>\<open>find_recipies\<close> raise \<^verbatim>\<open>AttributeError\<close>.
\<close>

theorem string_inputs_never_raise:
  assumes "list_all matchable_recipe db"
    and "list_all (computable_recipe rt table) db"
  shows "(\<exists>names. find_recipies rt (map JStr A) k db = Inr names) \<and>
         (\<exists>res. calculate_recipe_macros rt (JStr n) db table = Inr res) \<and>
         ((\<forall>r \<in> set db. str_lower rt [] \<notin> str_lower rt ` set (required_names r)) \<longrightarrow>
            find_recipies rt (map JStr (A @ [[]])) k db = find_recipies rt (map JStr A) k db) \<and>
         (\<not> list_all is_str xs \<longrightarrow> find_recipies rt xs k db = Inl AttributeError)"
proof (intro conjI impI)
  show "\<exists>names. find_recipies rt (map JStr A) k db = Inr names"
    using find_recipies_matchable [OF assms(1)] by blast
  show "\<exists>res. calculate_recipe_macros rt (JStr n) db table = Inr res"
    using assms(2) by (rule calculate_returns)
  show "find_recipies rt xs k db = Inl AttributeError" if "\<not> list_all is_str xs"
    using that by (simp add: find_recipies_def map_err_lower_other)
  show "find_recipies rt (map JStr (A @ [[]])) k db = find_recipies rt (map JStr A) k db"
    if unused: "\<forall>r \<in> set db. str_lower rt [] \<notin> str_lower rt ` set (required_names r)"
  proof -
    have "missing_names rt (A @ [[]]) r = missing_names rt A r" if "r \<in> set db" for r
      using unused that by (auto simp: missing_names_def)
    then have "spec_matches rt (A @ [[]]) k db = spec_matches rt A k db"
      unfolding spec_matches_def by (auto intro!: arg_cong [where f = "map recipe_name"] filter_cong)
    then show ?thesis
      by (simp only: find_recipies_matchable [OF assms(1)])
  qed
qed

theorem string_inputs_never_raise_witness:
  "list_all matchable_recipe omelette_catalog \<and>
   list_all (computable_recipe exact_runtime egg_table) omelette_catalog \<and>
   (\<exists>names. find_recipies exact_runtime (map JStr [[], ''Egg'']) 0 omelette_catalog = Inr names) \<and>
   (\<exists>res. calculate_recipe_macros exact_runtime (JStr []) omelette_catalog egg_table = Inr res) \<and>
   str_lower exact_runtime [] \<notin>
     str_lower exact_runtime ` set (required_names (hd omelette_catalog)) \<and>
   find_recipies exact_runtime (map JStr ([[], ''Egg''] @ [[]])) 0 omelette_catalog =
     find_recipies exact_runtime (map JStr [[], ''Egg'']) 0 omelette_catalog \<and>
   \<not> list_all is_str [JNull :: rat json] \<and>
   find_recipies exact_runtime [JNull] 0 omelette_catalog = Inl AttributeError"
proof -
  have wf: "list_all matchable_recipe omelette_catalog"
    by (simp add: sample_defs shape_defs)
  have ok: "list_all (computable_recipe exact_runtime egg_table) omelette_catalog"
    by (simp add: sample_defs runtime_defs shape_defs)
  have egg: "str_lower exact_runtime [] \<notin>
      str_lower exact_runtime ` set (required_names (hd omelette_catalog))"
    by (simp add: sample_defs runtime_defs required_names_def ingredient_entries_def entry_name_def)
  then have unused: "\<forall>r \<in> set omelette_catalog.
      str_lower exact_runtime [] \<notin> str_lower exact_runtime ` set (required_names r)"
    by (simp add: omelette_catalog_def)
  have other: "\<not> list_all is_str [JNull :: rat json]"
    by simp
  from string_inputs_never_raise [OF wf ok, of "[[], ''Egg'']" 0 "[]" "[JNull]"] wf ok egg unused other
  show ?thesis by blast
qed

end
